theory Spec2Isabelle
  imports Complex_Main
begin

section \<open>JavaScript strings and arrays\<close>

text \<open>
  Strings are \<^typ>\<open>string\<close>. Characters that cannot stand inside a string literal
  are written with their code: the backslash, the double quote, the single quote and
  the line feed.
\<close>

definition bslash :: char where
  "bslash = CHR 0x5C"

definition dquote :: char where
  "dquote = CHR 0x22"

definition squote :: char where
  "squote = CHR 0x27"

definition newline :: char where
  "newline = CHR 0x0A"

text \<open>
  \<^verbatim>\<open>s.split(c)\<close> for a separator of one character: the pieces between the
  separators, empty pieces kept; the empty string gives one empty piece.
\<close>

fun split_on :: "char \<Rightarrow> string \<Rightarrow> string list" where
  "split_on c [] = [[]]"
| "split_on c (x # xs) =
     (if x = c then [] # split_on c xs
      else (case split_on c xs of
              [] \<Rightarrow> [[x]]
            | t # ts \<Rightarrow> (x # t) # ts))"

text \<open>
  \<^verbatim>\<open>a.filter(function(value, i) { ... })\<close>: the callback sees each element with its
  index in the array that is being filtered. The second argument is the index of the
  first element.
\<close>

fun filter_idx :: "('a \<Rightarrow> nat \<Rightarrow> bool) \<Rightarrow> nat \<Rightarrow> 'a list \<Rightarrow> 'a list" where
  "filter_idx p i [] = []"
| "filter_idx p i (x # xs) =
     (if p x i then x # filter_idx p (Suc i) xs else filter_idx p (Suc i) xs)"

section \<open>Parsing the output of a registry query\<close>

text \<open>
  \<^verbatim>\<open>
  private extractVersionsOutOfRegistryKeyStrings(registryQueryResult : string) : string[]
  {
      return registryQueryResult.split(" ")
      .filter(function(value : string, i : number) { return value != '' && i != 0; })
      .filter(function(value : string, i : number) { return i % 3 == 0; });
  }
  \<close>
\<close>

definition extractVersionsOutOfRegistryKeyStrings :: "string \<Rightarrow> string list" where
  "extractVersionsOutOfRegistryKeyStrings registryQueryResult =
     filter_idx (\<lambda>value i. i mod 3 = 0) 0
       (filter_idx (\<lambda>value i. value \<noteq> '''' \<and> i \<noteq> 0) 0
          (split_on CHR '' '' registryQueryResult))"

text \<open>
  The rule in the words of the specification: drop the leading echo of the query, drop
  the blank tokens, and keep every third token of what remains, starting with the first.
\<close>

fun every_third :: "'a list \<Rightarrow> 'a list" where
  "every_third [] = []"
| "every_third [x] = [x]"
| "every_third [x, y] = [x]"
| "every_third (x # y # z # rest) = x # every_third rest"

definition spec_extract :: "string \<Rightarrow> string list" where
  "spec_extract s = every_third (filter (\<lambda>t. t \<noteq> '''') (tl (split_on CHR '' '' s)))"

text \<open>The query output of the specification's example: its eight tokens joined by blanks.\<close>

definition spec_registry_tokens :: "string list" where
  "spec_registry_tokens =
     [''HKLM'' @ [bslash] @ ''...'' @ [bslash] @ ''sdk'', '''', ''7.0.203'', ''REG_SZ'',
      '''', ''8.0.100'', ''REG_SZ'', '''']"

definition spec_registry_output :: string where
  "spec_registry_output =
     ''HKLM'' @ [bslash] @ ''...'' @ [bslash] @ ''sdk  7.0.203 REG_SZ  8.0.100 REG_SZ ''"

section \<open>The host: Node's runtime and the machine\<close>

text \<open>
  Values that the program throws or rejects a promise with: an \<^verbatim>\<open>Error\<close> object
  with its message, a system error of Node's \<^verbatim>\<open>fs\<close> module with its code and its
  message, a plain string (the download rejects with strings), and the event object of
  a conflicting install, which wraps an \<^verbatim>\<open>Error\<close> and is thrown as it is.
\<close>

datatype event = DotnetConflictingGlobalWindowsInstallError string

datatype thrown =
    Error string
  | SystemError string string
  | Reason string
  | Event event

text \<open>
  The object that \<^verbatim>\<open>child_process.spawnSync\<close> returns: a plain object with the
  fields \<^verbatim>\<open>pid\<close>, \<^verbatim>\<open>output\<close>, \<^verbatim>\<open>stdout\<close>, \<^verbatim>\<open>stderr\<close>, \<^verbatim>\<open>status\<close>,
  \<^verbatim>\<open>signal\<close> and \<^verbatim>\<open>error\<close>. The program reads its exit status (a number, or
  \<^verbatim>\<open>null\<close> when the child was killed or never started) and calls \<^verbatim>\<open>toString()\<close>
  on it. The object has no \<^verbatim>\<open>toString\<close> of its own, so the call is
  \<^verbatim>\<open>Object.prototype.toString\<close>, which names the class of the object and reads none
  of its fields.
\<close>

record spawn_result =
  status :: "int option"
  stdout :: string

definition object_toString :: "spawn_result \<Rightarrow> string" where
  "object_toString commandResult = ''[object Object]''"

text \<open>What a request of \<^verbatim>\<open>https.get\<close> ends in: a response, with its status code, its
  status message and its body, or an \<^verbatim>\<open>error\<close> event of the request, with the message
  of the error.\<close>

datatype http_outcome =
    Response nat string string
  | RequestError string

text \<open>
  Everything the program asks of its surroundings is a field of the host:
  \<^item> \<^verbatim>\<open>os.platform()\<close>;
  \<^item> \<^verbatim>\<open>proc.spawnSync(command, args)\<close> and \<^verbatim>\<open>proc.execFileSync(file, args)\<close>,
    with \<open>Inl\<close> for a call that throws (\<^verbatim>\<open>execFileSync\<close> throws when the child
    cannot be started or exits with a status other than zero);
  \<^item> \<^verbatim>\<open>path.dirname\<close> and \<^verbatim>\<open>path.resolve\<close>;
  \<^item> the outcome of \<^verbatim>\<open>https.get(url)\<close>;
  \<^item> the message of the system error that a call of the \<^verbatim>\<open>fs\<close> module fails
    with, given the code of the error, the system call and the path;
  \<^item> the error, if any, that writing a response body to a path fails with;
  \<^item> \<^verbatim>\<open>IGlobalInstaller.getDownloadedInstallFilesFolder()\<close>, whose class is not among
    the sources.
\<close>

record host =
  platform :: string
  spawnSync :: "string \<Rightarrow> string list \<Rightarrow> thrown + spawn_result"
  execFileSync :: "string \<Rightarrow> string list \<Rightarrow> thrown + string"
  dirname :: "string \<Rightarrow> string"
  resolve :: "string \<Rightarrow> string"
  httpsGet :: "string \<Rightarrow> http_outcome"
  errorMessage :: "string \<Rightarrow> string \<Rightarrow> string \<Rightarrow> string"
  writeError :: "string \<Rightarrow> (string \<times> string) option"
  getDownloadedInstallFilesFolder :: string

text \<open>
  The message that Node gives a system error: the code, a description, the system call
  and the path, as in \<^verbatim>\<open>EEXIST: file already exists, open '/tmp/a'\<close>.
\<close>

definition errno_description :: "string \<Rightarrow> string" where
  "errno_description code =
     (if code = ''EEXIST'' then ''file already exists''
      else if code = ''ENOENT'' then ''no such file or directory''
      else if code = ''ENOTDIR'' then ''not a directory''
      else if code = ''EPERM'' then ''operation not permitted''
      else if code = ''EISDIR'' then ''illegal operation on a directory''
      else ''unknown error'')"

definition node_errorMessage :: "string \<Rightarrow> string \<Rightarrow> string \<Rightarrow> string" where
  "node_errorMessage code syscall path =
     code @ '': '' @ errno_description code @ '', '' @ syscall @ '' '' @ [squote] @ path
     @ [squote]"

section \<open>JavaScript numbers and the version resolver\<close>

text \<open>
  The conflict check converts what the version resolver returns with \<^verbatim>\<open>Number(...)\<close>
  and compares the numbers with \<^verbatim>\<open>===\<close> and \<^verbatim>\<open><=\<close>. A number is \<^verbatim>\<open>NaN\<close>
  or a value; \<^verbatim>\<open>NaN\<close> is equal to nothing and below nothing.
\<close>

datatype number = NaN | Num rat

fun strict_eq :: "number \<Rightarrow> number \<Rightarrow> bool" where
  "strict_eq (Num a) (Num b) = (a = b)"
| "strict_eq a b = False"

fun less_eq_number :: "number \<Rightarrow> number \<Rightarrow> bool" where
  "less_eq_number (Num a) (Num b) = (a \<le> b)"
| "less_eq_number a b = False"

text \<open>
  The class \<^verbatim>\<open>VersionResolver\<close> is not among the sources. Its three static methods
  are taken as parameters, each together with the \<^verbatim>\<open>Number(...)\<close> around its call:
  \<^verbatim>\<open>Number(VersionResolver.getMajorMinor(v))\<close>,
  \<^verbatim>\<open>Number(VersionResolver.getFeatureBandFromVersion(v))\<close> and
  \<^verbatim>\<open>Number(VersionResolver.getFeatureBandPatchVersion(v))\<close>.
\<close>

record version_resolver =
  getMajorMinor :: "string \<Rightarrow> number"
  getFeatureBandFromVersion :: "string \<Rightarrow> number"
  getFeatureBandPatchVersion :: "string \<Rightarrow> number"

section \<open>The SDKs installed on the machine\<close>

text \<open>\<^verbatim>\<open>s.replace(pattern, replacement)\<close> with a string pattern replaces its first
  occurrence.\<close>

fun replace_first :: "string \<Rightarrow> string \<Rightarrow> string \<Rightarrow> string" where
  "replace_first pat rep [] = (if pat = [] then rep else [])"
| "replace_first pat rep (c # cs) =
     (if take (length pat) (c # cs) = pat then rep @ drop (length pat) (c # cs)
      else c # replace_first pat rep cs)"

definition sdkInstallRecords64Bit :: string where
  "sdkInstallRecords64Bit =
     ''HKEY_LOCAL_MACHINE'' @ [bslash] @ ''SOFTWARE'' @ [bslash] @ ''WOW6432Node'' @ [bslash]
     @ ''dotnet'' @ [bslash] @ ''Setup'' @ [bslash] @ ''InstalledVersions'' @ [bslash]
     @ ''x64'' @ [bslash] @ ''sdk''"

definition sdkInstallRecords32Bit :: string where
  "sdkInstallRecords32Bit = replace_first ''x64'' ''x86'' sdkInstallRecords64Bit"

definition registryQueryCommand :: string where
  "registryQueryCommand = ''%SystemRoot%'' @ [bslash] @ ''System32'' @ [bslash] @ ''reg.exe''"

text \<open>
  \<^verbatim>\<open>
  const sdks: string[] = [];
  if (os.platform() === 'win32')
  {
      ...
      const queries = [sdkInstallRecords32Bit, sdkInstallRecords64Bit];
      for ( let query of queries)
      {
          try
          {
              const registryQueryCommand = `%SystemRoot%\\System32\\reg.exe`;
              const installRecordKeysOfXBit = proc.spawnSync(registryQueryCommand,
                  [`query`, `"${query}"`], {stdio : ['pipe', 'ignore', 'ignore']}).toString();
              const installedSdks = this.extractVersionsOutOfRegistryKeyStrings(installRecordKeysOfXBit);
              sdks.concat(installedSdks);
          }
          catch(e) { }
      }
  }
  return sdks;
  \<close>
  The loop over the queries carries \<^verbatim>\<open>sdks\<close>. \<^verbatim>\<open>Array.prototype.concat\<close> returns a
  new array and leaves \<^verbatim>\<open>sdks\<close> as it was; the statement drops the new array.
\<close>

fun query_loop :: "host \<Rightarrow> string list \<Rightarrow> string list \<Rightarrow> string list" where
  "query_loop h sdks [] = sdks"
| "query_loop h sdks (query # queries) =
     (case spawnSync h registryQueryCommand [''query'', [dquote] @ query @ [dquote]] of
        Inl e \<Rightarrow> query_loop h sdks queries
      | Inr result \<Rightarrow>
          (let installRecordKeysOfXBit = object_toString result;
               installedSdks = extractVersionsOutOfRegistryKeyStrings installRecordKeysOfXBit;
               concatenated = sdks @ installedSdks
           in query_loop h sdks queries))"

definition getGlobalSdkVersionsInstalledOnMachine :: "host \<Rightarrow> string list" where
  "getGlobalSdkVersionsInstalledOnMachine h =
     (if platform h = ''win32''
      then query_loop h [] [sdkInstallRecords32Bit, sdkInstallRecords64Bit]
      else [])"

section \<open>The conflict check\<close>

text \<open>
  \<^verbatim>\<open>
  const sdks : Array<string> = await this.getGlobalSdkVersionsInstalledOnMachine();
  for (let sdk of sdks)
  {
      if ( Number(VersionResolver.getMajorMinor(requestedVersion)) === Number(VersionResolver.getMajorMinor(sdk)) &&
           Number(VersionResolver.getFeatureBandFromVersion(requestedVersion)) === Number(VersionResolver.getFeatureBandFromVersion(sdk)) &&
           Number(VersionResolver.getFeatureBandPatchVersion(requestedVersion)) <= Number(VersionResolver.getFeatureBandPatchVersion(sdk)) )
      {
          return sdk;
      }
  }
  return '';
  \<close>
\<close>

fun conflict_loop :: "version_resolver \<Rightarrow> string \<Rightarrow> string list \<Rightarrow> string" where
  "conflict_loop r requestedVersion [] = ''''"
| "conflict_loop r requestedVersion (sdk # sdks) =
     (if strict_eq (getMajorMinor r requestedVersion) (getMajorMinor r sdk)
         \<and> strict_eq (getFeatureBandFromVersion r requestedVersion) (getFeatureBandFromVersion r sdk)
         \<and> less_eq_number (getFeatureBandPatchVersion r requestedVersion)
              (getFeatureBandPatchVersion r sdk)
      then sdk
      else conflict_loop r requestedVersion sdks)"

definition GlobalWindowsInstallWithConflictingVersionAlreadyExists ::
  "version_resolver \<Rightarrow> host \<Rightarrow> string \<Rightarrow> string" where
  "GlobalWindowsInstallWithConflictingVersionAlreadyExists r h requestedVersion =
     conflict_loop r requestedVersion (getGlobalSdkVersionsInstalledOnMachine h)"

section \<open>Privilege detection\<close>

text \<open>
  \<^verbatim>\<open>
  public static isElevated() : boolean
  {
      if(os.platform() !== 'win32')
      {
          const commandResult = proc.spawnSync("id", ["-u"]);
          return commandResult.status === 0;
      }
      try
      {
          proc.execFileSync( "net", ["session"], { "stdio": "ignore" } );
          return true;
      }
      catch ( error ) { return false; }
  }
  \<close>
  The call of \<^verbatim>\<open>spawnSync\<close> stands outside the \<^verbatim>\<open>try\<close>: what it throws leaves the
  function.
\<close>

definition isElevated :: "host \<Rightarrow> thrown + bool" where
  "isElevated h =
     (if platform h \<noteq> ''win32'' then
        (case spawnSync h ''id'' [''-u''] of
           Inl e \<Rightarrow> Inl e
         | Inr commandResult \<Rightarrow> Inr (status commandResult = Some 0))
      else
        (case execFileSync h ''net'' [''session''] of
           Inl error \<Rightarrow> Inr False
         | Inr out \<Rightarrow> Inr True))"

section \<open>Node's path module\<close>

text \<open>
  \<^verbatim>\<open>path.join\<close> joins its non-empty arguments with the separator of the platform
  and normalises the result: empty segments and \<^verbatim>\<open>.\<close> segments go, a \<^verbatim>\<open>..\<close>
  segment takes the segment before it away, and a separator at the end stays. On
  Windows both slashes separate, and a drive letter with its colon is kept in front.
  A Windows path that begins with two separators is normalised here as a path from the
  root of the current drive; Node keeps server and share of such a UNC path as its root.
\<close>

fun split_by :: "(char \<Rightarrow> bool) \<Rightarrow> string \<Rightarrow> string list" where
  "split_by p [] = [[]]"
| "split_by p (x # xs) =
     (if p x then [] # split_by p xs
      else (case split_by p xs of
              [] \<Rightarrow> [[x]]
            | t # ts \<Rightarrow> (x # t) # ts))"

fun join_with :: "string \<Rightarrow> string list \<Rightarrow> string" where
  "join_with sep [] = []"
| "join_with sep [s] = s"
| "join_with sep (s # t # ss) = s @ sep @ join_with sep (t # ss)"

text \<open>
  Node's \<^verbatim>\<open>normalizeString\<close> on the segments of a path. The second argument holds the
  segments kept so far, the last one first.
\<close>

fun normalize_segments :: "bool \<Rightarrow> string list \<Rightarrow> string list \<Rightarrow> string list" where
  "normalize_segments allowAboveRoot kept [] = rev kept"
| "normalize_segments allowAboveRoot kept (s # ss) =
     (if s = '''' \<or> s = ''.'' then normalize_segments allowAboveRoot kept ss
      else if s = ''..'' then
        (case kept of
           [] \<Rightarrow>
             (if allowAboveRoot then normalize_segments allowAboveRoot [''..''] ss
              else normalize_segments allowAboveRoot [] ss)
         | t # ts \<Rightarrow>
             (if t = ''..'' then
                (if allowAboveRoot then normalize_segments allowAboveRoot (''..'' # kept) ss
                 else normalize_segments allowAboveRoot kept ss)
              else normalize_segments allowAboveRoot ts ss))
      else normalize_segments allowAboveRoot (s # kept) ss)"

definition isPosixPathSeparator :: "char \<Rightarrow> bool" where
  "isPosixPathSeparator c = (c = CHR ''/'')"

definition isPathSeparator :: "char \<Rightarrow> bool" where
  "isPathSeparator c = (c = CHR ''/'' \<or> c = bslash)"

definition isWindowsDeviceRoot :: "char \<Rightarrow> bool" where
  "isWindowsDeviceRoot c =
     (c \<in> set ''ABCDEFGHIJKLMNOPQRSTUVWXYZabcdefghijklmnopqrstuvwxyz'')"

definition posix_normalize :: "string \<Rightarrow> string" where
  "posix_normalize path =
     (if path = [] then ''.''
      else
        (let isAbsolute = (hd path = CHR ''/'');
             trailingSeparator = (last path = CHR ''/'');
             normalized = join_with ''/''
               (normalize_segments (\<not> isAbsolute) [] (split_by isPosixPathSeparator path))
         in if normalized = [] then
              (if isAbsolute then ''/'' else if trailingSeparator then ''./'' else ''.'')
            else
              (if isAbsolute then ''/'' else '''') @ normalized
              @ (if trailingSeparator then ''/'' else '''')))"

definition posix_join :: "string list \<Rightarrow> string" where
  "posix_join args =
     (let joined = join_with ''/'' (filter (\<lambda>arg. arg \<noteq> []) args)
      in if joined = [] then ''.'' else posix_normalize joined)"

definition win32_normalize :: "string \<Rightarrow> string" where
  "win32_normalize path =
     (if path = [] then ''.''
      else if length path = 1 then (if isPosixPathSeparator (hd path) then [bslash] else path)
      else
        (let hasDevice = (\<not> isPathSeparator (hd path) \<and> isWindowsDeviceRoot (hd path)
                            \<and> path ! 1 = CHR '':'');
             device = (if hasDevice then take 2 path else '''');
             isAbsolute = (isPathSeparator (hd path)
                            \<or> (hasDevice \<and> 2 < length path \<and> isPathSeparator (path ! 2)));
             rootEnd = (if hasDevice then (if isAbsolute then 3 else 2)
                        else if isAbsolute then 1 else 0);
             normalized = (if rootEnd < length path
                           then join_with [bslash]
                                  (normalize_segments (\<not> isAbsolute) []
                                     (split_by isPathSeparator (drop rootEnd path)))
                           else '''');
             tail0 = (if normalized = [] \<and> \<not> isAbsolute then ''.'' else normalized);
             tail1 = (if tail0 \<noteq> [] \<and> isPathSeparator (last path) then tail0 @ [bslash]
                      else tail0)
         in device @ (if isAbsolute then [bslash] else '''') @ tail1))"

definition win32_join :: "string list \<Rightarrow> string" where
  "win32_join args =
     (let joined = join_with [bslash] (filter (\<lambda>arg. arg \<noteq> []) args)
      in if joined = [] then ''.'' else win32_normalize joined)"

text \<open>\<^verbatim>\<open>path\<close> is \<^verbatim>\<open>path.win32\<close> where \<^verbatim>\<open>os.platform()\<close> is \<^verbatim>\<open>win32\<close>, and
  \<^verbatim>\<open>path.posix\<close> elsewhere.\<close>

definition path_join :: "host \<Rightarrow> string list \<Rightarrow> string" where
  "path_join h args = (if platform h = ''win32'' then win32_join args else posix_join args)"

section \<open>The expected path of a global SDK\<close>

text \<open>
  \<^verbatim>\<open>
  if(os.platform() === 'win32')
  {
      if(installedArch === 'x32')
          return path.join(`C:\\Program Files (x86)\\dotnet\\sdk\\`, specificSDKVersionInstalled, "dotnet.dll");
      else if(installedArch === 'x64')
          return path.join(`C:\\Program Files\\dotnet\\sdk\\`, specificSDKVersionInstalled, "dotnet.dll");
  }
  else if(os.platform() === 'darwin')
  {
      if(installedArch !== 'x64')
          return path.join(`/usr/local/share/dotnet/sdk`, specificSDKVersionInstalled);
      else
          return path.join(`/usr/local/share/dotnet/x64/dotnet/sdk`, specificSDKVersionInstalled);
  }
  throw Error(`The operating system is unsupported.`);
  \<close>
\<close>

definition unsupportedOperatingSystem :: thrown where
  "unsupportedOperatingSystem = Error ''The operating system is unsupported.''"

definition getExpectedGlobalSDKPath :: "host \<Rightarrow> string \<Rightarrow> string \<Rightarrow> thrown + string" where
  "getExpectedGlobalSDKPath h specificSDKVersionInstalled installedArch =
     (if platform h = ''win32'' then
        (if installedArch = ''x32'' then
           Inr (path_join h
                  [''C:'' @ [bslash] @ ''Program Files (x86)'' @ [bslash] @ ''dotnet'' @ [bslash]
                     @ ''sdk'' @ [bslash],
                   specificSDKVersionInstalled, ''dotnet.dll''])
         else if installedArch = ''x64'' then
           Inr (path_join h
                  [''C:'' @ [bslash] @ ''Program Files'' @ [bslash] @ ''dotnet'' @ [bslash]
                     @ ''sdk'' @ [bslash],
                   specificSDKVersionInstalled, ''dotnet.dll''])
         else Inl unsupportedOperatingSystem)
      else if platform h = ''darwin'' then
        (if installedArch \<noteq> ''x64'' then
           Inr (path_join h [''/usr/local/share/dotnet/sdk'', specificSDKVersionInstalled])
         else
           Inr (path_join h [''/usr/local/share/dotnet/x64/dotnet/sdk'',
                  specificSDKVersionInstalled]))
      else Inl unsupportedOperatingSystem)"

section \<open>The file system, the event stream and the calls made\<close>

text \<open>
  The state that the installer changes: the regular files with their contents, the
  directories, the events posted to the event stream, the calls made (in order), the
  asynchronous calls of \<^verbatim>\<open>fs.readdir\<close> and \<^verbatim>\<open>fs.unlink\<close> that a wipe has made and
  that the runtime has not performed yet, and the errors thrown inside their
  callbacks, which no caller catches.

  The runtime performs a scheduled call after the function that made it has returned,
  at a time of its choosing. The files and directories of a state are the file system
  as the calls performed so far have left it: a scheduled call has changed nothing.
\<close>

datatype action =
    WipeDirectory string
  | Download string string
  | RunInstaller string "string list"

datatype async_call =
    Readdir string
  | Unlink string

record world =
  files :: "string \<rightharpoonup> string"
  dirs :: "string list"
  posted :: "event list"
  trace :: "action list"
  scheduled :: "async_call list"
  uncaught :: "thrown list"

definition existsSync :: "world \<Rightarrow> string \<Rightarrow> bool" where
  "existsSync w path = (path \<in> set (dirs w) \<or> files w path \<noteq> None)"

definition unlink :: "string \<Rightarrow> world \<Rightarrow> world" where
  "unlink path w = w\<lparr>files := (files w)(path := None)\<rparr>"

definition mkdirSync :: "host \<Rightarrow> string \<Rightarrow> world \<Rightarrow> thrown + world" where
  "mkdirSync h dir w =
     (if existsSync w dir then
        Inl (SystemError ''EEXIST'' (errorMessage h ''EEXIST'' ''mkdir'' dir))
      else if dirname h dir \<in> set (dirs w) then Inr (w\<lparr>dirs := dir # dirs w\<rparr>)
      else Inl (SystemError ''ENOENT'' (errorMessage h ''ENOENT'' ''mkdir'' dir)))"

text \<open>
  \<^verbatim>\<open>
  public static wipeDirectory(directoryToWipe : string)
  {
      fs.readdir(directoryToWipe, (err, files) => {
          if (err) throw err;
          for (const file of files) {
              fs.unlink(path.join(directoryToWipe, file), (err) => { if (err) throw err; });
          }
      });
  }
  \<close>
  The function calls \<^verbatim>\<open>fs.readdir\<close> and returns: it schedules the reading of the
  directory and removes nothing.
\<close>

definition wipeDirectory :: "string \<Rightarrow> world \<Rightarrow> world" where
  "wipeDirectory directoryToWipe w =
     w\<lparr>trace := trace w @ [WipeDirectory directoryToWipe],
       scheduled := scheduled w @ [Readdir directoryToWipe]\<rparr>"




section \<open>The download\<close>

text \<open>A promise settles once: a later \<^verbatim>\<open>resolve\<close> or \<^verbatim>\<open>reject\<close> changes nothing.\<close>

datatype promise = Pending | Resolved | Rejected thrown

definition settle :: "promise \<Rightarrow> promise \<Rightarrow> promise" where
  "settle outcome p = (if p = Pending then outcome else p)"

text \<open>\<^verbatim>\<open>await\<close>: a promise that stays pending never gives the control back.\<close>

fun await :: "promise \<Rightarrow> 'a \<Rightarrow> (thrown + 'a) option" where
  "await Pending v = None"
| "await Resolved v = Some (Inr v)"
| "await (Rejected e) v = Some (Inl e)"

fun message_of :: "thrown \<Rightarrow> string" where
  "message_of (Error m) = m"
| "message_of (SystemError code m) = m"
| "message_of (Reason m) = m"
| "message_of (Event (DotnetConflictingGlobalWindowsInstallError m)) = m"

text \<open>A number in a template literal: its decimal digits.\<close>

fun decimal :: "nat \<Rightarrow> string" where
  "decimal n =
     (if n < 10 then [''0123456789'' ! n]
      else decimal (n div 10) @ [''0123456789'' ! (n mod 10)])"

declare decimal.simps [simp del]

text \<open>
  \<^verbatim>\<open>fs.createWriteStream(dest, { flags: "wx" })\<close> opens the file for writing and fails
  when the path exists. A failed open is an \<^verbatim>\<open>error\<close> event of the stream.
\<close>

definition open_wx :: "host \<Rightarrow> string \<Rightarrow> world \<Rightarrow> thrown + world" where
  "open_wx h dest w =
     (if existsSync w dest then
        Inl (SystemError ''EEXIST'' (errorMessage h ''EEXIST'' ''open'' dest))
      else if dirname h dest \<in> set (dirs w) then Inr (w\<lparr>files := (files w)(dest \<mapsto> '''')\<rparr>)
      else Inl (SystemError ''ENOENT'' (errorMessage h ''ENOENT'' ''open'' dest)))"

text \<open>
  \<^verbatim>\<open>
  file.on("error", err =>
  {
      file.close();
      if (err.message === "EEXIST")
      {
          reject("File already exists");
      }
      else
      {
          fs.unlink(dest, () => {}); // Delete incomplete file download
          reject(err.message);
      }
  });
  \<close>
\<close>

definition on_file_error :: "string \<Rightarrow> thrown \<Rightarrow> promise \<times> world \<Rightarrow> promise \<times> world" where
  "on_file_error dest err pw =
     (case pw of (p, w) \<Rightarrow>
        if message_of err = ''EEXIST''
        then (settle (Rejected (Reason ''File already exists'')) p, w)
        else (settle (Rejected (Reason (message_of err))) p, unlink dest w))"

text \<open>
  \<^verbatim>\<open>
  const request = https.get(url, response => {
      if (response.statusCode === 200)
      {
          response.pipe(file);
      }
      else
      {
          file.close();
          fs.unlink(dest, () => {}); // Delete incomplete file download
          reject(`Server responded with ${response.statusCode}: ${response.statusMessage}`);
      }
  });
  file.on("finish", () => { resolve(); });
  \<close>
  The pipe writes the body to the stream and ends it, which is the \<^verbatim>\<open>finish\<close> event;
  a write that fails is an \<^verbatim>\<open>error\<close> event of the stream. Nothing is written to a
  stream whose open failed (\<open>opened\<close> is false then).
\<close>

definition on_response ::
  "host \<Rightarrow> string \<Rightarrow> bool \<Rightarrow> nat \<Rightarrow> string \<Rightarrow> string \<Rightarrow> promise \<times> world \<Rightarrow> promise \<times> world" where
  "on_response h dest opened statusCode statusMessage body pw =
     (case pw of (p, w) \<Rightarrow>
        if statusCode = 200 then
          (if opened then
             (case writeError h dest of
                None \<Rightarrow> (settle Resolved p, w\<lparr>files := (files w)(dest \<mapsto> body)\<rparr>)
              | Some (code, msg) \<Rightarrow> on_file_error dest (SystemError code msg) (p, w))
           else (p, w))
        else
          (settle (Rejected (Reason (''Server responded with '' @ decimal statusCode @ '': ''
                                       @ statusMessage))) p,
           unlink dest w))"

text \<open>
  \<^verbatim>\<open>
  request.on("error", err =>
  {
      file.close();
      fs.unlink(dest, () => {}); // Delete incomplete file download
      reject(err.message);
  });
  \<close>
\<close>

definition on_request_error :: "string \<Rightarrow> string \<Rightarrow> promise \<times> world \<Rightarrow> promise \<times> world" where
  "on_request_error dest msg pw =
     (case pw of (p, w) \<Rightarrow> (settle (Rejected (Reason msg)) p, unlink dest w))"

fun on_http :: "host \<Rightarrow> string \<Rightarrow> bool \<Rightarrow> http_outcome \<Rightarrow> promise \<times> world \<Rightarrow> promise \<times> world" where
  "on_http h dest opened (Response statusCode statusMessage body) pw =
     on_response h dest opened statusCode statusMessage body pw"
| "on_http h dest opened (RequestError msg) pw = on_request_error dest msg pw"

text \<open>
  \<^verbatim>\<open>
  private async download(url : string, dest : string) {
      return new Promise<void>((resolve, reject) => {
          const installerDir = path.dirname(dest);
          if (!fs.existsSync(installerDir)){
              fs.mkdirSync(installerDir);
          }
          const file = fs.createWriteStream(dest, { flags: "wx" });
          const request = https.get(url, response => { ... });
          request.on("error", err => { ... });
          file.on("finish", () => { ... });
          file.on("error", err => { ... });
      });
  }
  \<close>
  What \<^verbatim>\<open>mkdirSync\<close> throws inside the executor rejects the promise. The handlers
  run one after the other: the one of a failed open first, then the one of the
  response or of the error of the request, which is made whether the open failed or
  not.
\<close>

definition download :: "host \<Rightarrow> string \<Rightarrow> string \<Rightarrow> world \<Rightarrow> promise \<times> world" where
  "download h url dest w0 =
     (let w = w0\<lparr>trace := trace w0 @ [Download url dest]\<rparr>;
          installerDir = dirname h dest
      in case (if \<not> existsSync w installerDir then mkdirSync h installerDir w else Inr w) of
           Inl e \<Rightarrow> (Rejected e, w)
         | Inr w1 \<Rightarrow>
             (case open_wx h dest w1 of
                Inl err \<Rightarrow>
                  on_http h dest False (httpsGet h url) (on_file_error dest err (Pending, w1))
              | Inr w2 \<Rightarrow> on_http h dest True (httpsGet h url) (Pending, w2)))"

section \<open>The installer\<close>

record installer =
  installerUrl :: string
  installingVersion :: string

text \<open>
  \<^verbatim>\<open>
  private async downloadInstaller(installerUrl : string) : Promise<string>
  {
      const ourInstallerDownloadFolder = IGlobalInstaller.getDownloadedInstallFilesFolder();
      FileUtilities.wipeDirectory(ourInstallerDownloadFolder);
      const installerPath = path.join(ourInstallerDownloadFolder, `${installerUrl.split('/').slice(-1)}`);
      await this.download(installerUrl, installerPath);
      return installerPath;
  }
  \<close>
\<close>

definition installerPath_of :: "host \<Rightarrow> string \<Rightarrow> string" where
  "installerPath_of h url =
     path_join h [getDownloadedInstallFilesFolder h, last (split_on CHR ''/'' url)]"

definition downloadInstaller :: "host \<Rightarrow> string \<Rightarrow> world \<Rightarrow> (thrown + string) option \<times> world" where
  "downloadInstaller h url w =
     (let ourInstallerDownloadFolder = getDownloadedInstallFilesFolder h;
          w1 = wipeDirectory ourInstallerDownloadFolder w;
          installerPath = installerPath_of h url
      in case download h url installerPath w1 of
           (p, w2) \<Rightarrow> (await p installerPath, w2))"

text \<open>
  \<^verbatim>\<open>
  public async executeInstall(installerPath : string) : Promise<string>
  {
      if(os.platform() === 'darwin')
      {
          try
          {
              const commandResult = proc.spawnSync('open', ['-W', `${path.resolve(installerPath)}`]);
              return commandResult.toString();
          }
          catch(error : any) { return error; }
      }
      else
      {
          try
          {
              const commandResult = proc.spawnSync(`${path.resolve(installerPath)}`,
                  FileUtilities.isElevated() ? ['/quiet', '/install', '/norestart'] : []);
              return commandResult.toString();
          }
          catch(error : any) { return error; }
      }
  }
  \<close>
  The function returns a string or, from a \<^verbatim>\<open>catch\<close>, what was thrown. The call of
  the installer is recorded when it is made.
\<close>

datatype install_result = Output string | Caught thrown

definition executeInstall :: "host \<Rightarrow> string \<Rightarrow> world \<Rightarrow> install_result \<times> world" where
  "executeInstall h installerPath w =
     (if platform h = ''darwin'' then
        (let args = [''-W'', resolve h installerPath];
             w1 = w\<lparr>trace := trace w @ [RunInstaller ''open'' args]\<rparr>
         in case spawnSync h ''open'' args of
              Inr commandResult \<Rightarrow> (Output (object_toString commandResult), w1)
            | Inl error \<Rightarrow> (Caught error, w1))
      else
        (case isElevated h of
           Inl error \<Rightarrow> (Caught error, w)
         | Inr elevated \<Rightarrow>
             (let args = (if elevated then [''/quiet'', ''/install'', ''/norestart''] else []);
                  w1 = w\<lparr>trace := trace w @ [RunInstaller (resolve h installerPath) args]\<rparr>
              in case spawnSync h (resolve h installerPath) args of
                   Inr commandResult \<Rightarrow> (Output (object_toString commandResult), w1)
                 | Inl error \<Rightarrow> (Caught error, w1))))"

text \<open>
  \<^verbatim>\<open>
  public async installSDK(): Promise<string>
  {
      if(os.platform() === 'win32')
      {
          const conflictingVersion = await this.GlobalWindowsInstallWithConflictingVersionAlreadyExists(this.installingVersion);
          if(conflictingVersion !== '')
          {
              const err = new DotnetConflictingGlobalWindowsInstallError(new Error(`An global install is already on the machine: version ${conflictingVersion}, that conflicts with the requested version.
                  Please uninstall this version first if you would like to continue.`));
              this.acquisitionContext.eventStream.post(err);
              throw err;
          }
      }
      const installerFile : string = await this.downloadInstaller(this.installerUrl);
      const installerResult : string = await this.executeInstall(installerFile);
      FileUtilities.wipeDirectory(path.dirname(installerFile));
      return installerResult;
  }
  \<close>
  The result is \<open>None\<close> when an awaited promise stays pending. The two calls of
  \<^verbatim>\<open>wipeDirectory\<close> leave their readings of the directory scheduled: they have
  removed no file when the download is called, nor when the function returns.
\<close>

definition conflictMessage :: "string \<Rightarrow> string" where
  "conflictMessage conflictingVersion =
     ''An global install is already on the machine: version '' @ conflictingVersion
     @ '', that conflicts with the requested version.'' @ [newline]
     @ replicate 20 CHR '' '' @ ''Please uninstall this version first if you would like to continue.''"

text \<open>The statements after the conflict check: download, install, wipe.\<close>

definition download_and_install ::
  "host \<Rightarrow> installer \<Rightarrow> world \<Rightarrow> (thrown + install_result) option \<times> world" where
  "download_and_install h inst w =
     (case downloadInstaller h (installerUrl inst) w of
        (None, w1) \<Rightarrow> (None, w1)
      | (Some (Inl e), w1) \<Rightarrow> (Some (Inl e), w1)
      | (Some (Inr installerFile), w1) \<Rightarrow>
          (case executeInstall h installerFile w1 of
             (installerResult, w2) \<Rightarrow>
               (Some (Inr installerResult), wipeDirectory (dirname h installerFile) w2)))"

definition installSDK ::
  "version_resolver \<Rightarrow> host \<Rightarrow> installer \<Rightarrow> world \<Rightarrow> (thrown + install_result) option \<times> world" where
  "installSDK r h inst w =
     (if platform h = ''win32'' then
        (let conflictingVersion =
               GlobalWindowsInstallWithConflictingVersionAlreadyExists r h (installingVersion inst)
         in if conflictingVersion \<noteq> '''' then
              (let err = DotnetConflictingGlobalWindowsInstallError
                           (conflictMessage conflictingVersion)
               in (Some (Inl (Event err)), w\<lparr>posted := posted w @ [err]\<rparr>))
            else download_and_install h inst w)
      else download_and_install h inst w)"

section \<open>Example machines\<close>

text \<open>
  The hosts of the examples below take the directory of a path to be the path without
  its last segment, which is what \<^verbatim>\<open>path.dirname\<close> gives for a path of two or more
  segments that does not end in a separator, and resolve a path to itself.
\<close>

definition example_dirname :: "char \<Rightarrow> string \<Rightarrow> string" where
  "example_dirname sep path = join_with [sep] (butlast (split_by (\<lambda>c. c = sep) path))"

text \<open>
  A Linux machine and a user with the user id 1000: \<^verbatim>\<open>id -u\<close> prints the id and exits
  with status 0. The server answers every request with 404.
\<close>

definition linux_user_host :: host where
  "linux_user_host =
     \<lparr>platform = ''linux'',
      spawnSync = (\<lambda>command args.
         if command = ''id'' \<and> args = [''-u'']
         then Inr \<lparr>status = Some 0, stdout = ''1000'' @ [newline]\<rparr>
         else Inr \<lparr>status = Some 1, stdout = ''''\<rparr>),
      execFileSync = (\<lambda>file args. Inl (Error ''spawn net ENOENT'')),
      dirname = example_dirname CHR ''/'',
      resolve = (\<lambda>path. path),
      httpsGet = (\<lambda>url. Response 404 ''Not Found'' ''''),
      errorMessage = node_errorMessage,
      writeError = (\<lambda>path. None),
      getDownloadedInstallFilesFolder = ''/tmp/installers''\<rparr>"

text \<open>The same machine with a server that answers with the installer.\<close>

definition linux_serving_host :: host where
  "linux_serving_host = linux_user_host\<lparr>httpsGet := (\<lambda>url. Response 200 ''OK'' ''installer'')\<rparr>"

text \<open>
  A Windows machine whose registry records the SDK 7.0.203 in both hives: the query
  prints the key and one record. The session is not elevated.
\<close>

definition windows_host :: host where
  "windows_host =
     \<lparr>platform = ''win32'',
      spawnSync = (\<lambda>command args.
         if command = registryQueryCommand
         then Inr \<lparr>status = Some 0,
                   stdout = sdkInstallRecords64Bit @ [newline]
                            @ ''    7.0.203    REG_DWORD    0x1'' @ [newline]\<rparr>
         else Inr \<lparr>status = Some 0, stdout = ''''\<rparr>),
      execFileSync = (\<lambda>file args. Inl (Error ''Command failed: net session'')),
      dirname = example_dirname bslash,
      resolve = (\<lambda>path. path),
      httpsGet = (\<lambda>url. Response 200 ''OK'' ''installer''),
      errorMessage = node_errorMessage,
      writeError = (\<lambda>path. None),
      getDownloadedInstallFilesFolder = ''C:'' @ [bslash] @ ''installers''\<rparr>"

text \<open>A resolver for the versions of the examples: major.minor 7.0, and the digits of
  the patch as band and band patch.\<close>

definition example_resolver :: version_resolver where
  "example_resolver =
     \<lparr>getMajorMinor = (\<lambda>v. Num 7),
      getFeatureBandFromVersion = (\<lambda>v. if v = ''7.0.301'' then Num 3 else Num 2),
      getFeatureBandPatchVersion = (\<lambda>v. if v = ''7.0.203'' then Num 3 else Num 1)\<rparr>"

definition example_installer :: installer where
  "example_installer =
     \<lparr>installerUrl = ''https://example.org/sdk/dotnet-sdk.pkg'', installingVersion = ''7.0.201''\<rparr>"

text \<open>A file system with the scratch directory and, in the second one, a file that an
  earlier run has left in it, at the place of the download.\<close>

definition example_world :: world where
  "example_world =
     \<lparr>files = Map.empty, dirs = [''/tmp/installers'', ''/tmp'', ''C:'' @ [bslash] @ ''installers'', ''C:''],
      posted = [], trace = [], scheduled = [], uncaught = []\<rparr>"

definition world_with_file :: world where
  "world_with_file = example_world\<lparr>files := [''/tmp/installers/dotnet-sdk.pkg'' \<mapsto> ''old'']\<rparr>"

text \<open>A Mac with the same user and server.\<close>

definition mac_host :: host where
  "mac_host = linux_serving_host\<lparr>platform := ''darwin''\<rparr>"

definition example_url :: string where
  "example_url = ''https://example.org/sdk/dotnet-sdk.pkg''"

definition example_dest :: string where
  "example_dest = ''/tmp/installers/dotnet-sdk.pkg''"

section \<open>The rules of the specification\<close>

text \<open>
  The conflict rule: the requested version \<open>a\<close> conflicts with the installed version
  \<open>b\<close> when their major.minor are equal, their feature bands are equal and the band
  patch of \<open>a\<close> is at most the one of \<open>b\<close>.
\<close>

definition conflicts :: "version_resolver \<Rightarrow> string \<Rightarrow> string \<Rightarrow> bool" where
  "conflicts r a b =
     (strict_eq (getMajorMinor r a) (getMajorMinor r b)
      \<and> strict_eq (getFeatureBandFromVersion r a) (getFeatureBandFromVersion r b)
      \<and> less_eq_number (getFeatureBandPatchVersion r a) (getFeatureBandPatchVersion r b))"

text \<open>
  A version that is one segment of a path: not empty, not \<^verbatim>\<open>.\<close> or \<^verbatim>\<open>..\<close>, and
  without a separator.
\<close>

definition plain_segment :: "string \<Rightarrow> bool" where
  "plain_segment v =
     (v \<noteq> '''' \<and> v \<noteq> ''.'' \<and> v \<noteq> ''..'' \<and> list_all (\<lambda>c. \<not> isPathSeparator c) v)"

section \<open>Properties of the registry parser\<close>

lemma split_on_not_Nil: "split_on c s \<noteq> []"
  by (induction s) (auto split: list.splits)

lemma filter_idx_drop_blank:
  "filter_idx (\<lambda>value i. value \<noteq> [] \<and> i \<noteq> 0) (Suc n) xs = filter (\<lambda>t. t \<noteq> []) xs"
  by (induction xs arbitrary: n) auto

lemma filter_idx_head_and_blank:
  "filter_idx (\<lambda>value i. value \<noteq> [] \<and> i \<noteq> 0) 0 xs = filter (\<lambda>t. t \<noteq> []) (tl xs)"
proof (cases xs)
  case Nil
  then show ?thesis by simp
next
  case (Cons x rest)
  have "filter_idx (\<lambda>value i. value \<noteq> [] \<and> i \<noteq> 0) 0 (x # rest)
        = filter_idx (\<lambda>value i. value \<noteq> [] \<and> i \<noteq> 0) (Suc 0) rest"
    by (simp only: filter_idx.simps) simp
  with Cons show ?thesis
    by (simp only: filter_idx_drop_blank list.sel)
qed

lemma filter_idx_every_third:
  "filter_idx (\<lambda>value i. i mod 3 = 0) (3 * k) xs = every_third xs"
proof (induction xs arbitrary: k rule: every_third.induct)
  case 1
  show ?case by simp
next
  case (2 x)
  show ?case by simp
next
  case (3 x y)
  have "Suc (3 * k) mod 3 \<noteq> 0"
    by presburger
  then show ?case
    by simp
next
  case (4 x y z rest)
  have step: "Suc (Suc (Suc (3 * k))) = 3 * Suc k"
    by simp
  have "filter_idx (\<lambda>value i. i mod 3 = 0) (Suc (Suc (Suc (3 * k)))) rest = every_third rest"
    unfolding step by (rule "4.IH")
  moreover have "Suc (3 * k) mod 3 \<noteq> 0" "Suc (Suc (3 * k)) mod 3 \<noteq> 0"
    by presburger+
  ultimately show ?case
    by (simp only: filter_idx.simps every_third.simps) simp
qed

lemma spec_registry_output_tokens:
  "split_on CHR '' '' spec_registry_output = spec_registry_tokens"
  by (simp add: spec_registry_output_def spec_registry_tokens_def bslash_def)

text \<open>A query output with three tokens to a record gives the value names.\<close>

lemma extractVersions_three_token_records:
  "extractVersionsOutOfRegistryKeyStrings
     (''KEY  7.0.203 REG_DWORD 0x1  8.0.100 REG_DWORD 0x1 '') = [''7.0.203'', ''8.0.100'']"
  by (simp add: extractVersionsOutOfRegistryKeyStrings_def)

text \<open>
  Claim C3, as the code has it. On the query output of the specification's example,
  whose blank-separated tokens are the eight tokens of the claim, the parser returns
  \<open>7.0.203\<close> and \<open>REG_SZ\<close>: a record of that output has two tokens, and the parser
  counts three tokens to a record (value name, type, data). On every query output the
  parser drops the first token and the blank tokens and keeps every third token of the
  rest, starting with the first.
\<close>

theorem extractVersions_every_third:
  "split_on CHR '' '' spec_registry_output = spec_registry_tokens
   \<and> extractVersionsOutOfRegistryKeyStrings spec_registry_output = [''7.0.203'', ''REG_SZ'']
   \<and> (\<forall>s. extractVersionsOutOfRegistryKeyStrings s = spec_extract s)"
proof -
  have third: "filter_idx (\<lambda>value i. i mod 3 = 0) 0 xs = every_third xs" for xs :: "string list"
    using filter_idx_every_third [of 0 xs] by simp
  have general: "extractVersionsOutOfRegistryKeyStrings s = spec_extract s" for s
    by (simp only: extractVersionsOutOfRegistryKeyStrings_def spec_extract_def
        filter_idx_head_and_blank third)
  have "spec_extract spec_registry_output = [''7.0.203'', ''REG_SZ'']"
    by (simp add: spec_extract_def spec_registry_output_tokens)
       (simp add: spec_registry_tokens_def)
  with general spec_registry_output_tokens show ?thesis
    by simp
qed

text \<open>
  Claim C3, as the specification states it, fails on its own example: the parser does
  not return the two versions.
\<close>

theorem extractVersions_spec_example_counterexample:
  "split_on CHR '' '' spec_registry_output = spec_registry_tokens
   \<and> extractVersionsOutOfRegistryKeyStrings spec_registry_output \<noteq> [''7.0.203'', ''8.0.100'']"
proof -
  have "extractVersionsOutOfRegistryKeyStrings spec_registry_output = [''7.0.203'', ''REG_SZ'']"
    by (simp add: extractVersionsOutOfRegistryKeyStrings_def spec_registry_output_tokens)
       (simp add: spec_registry_tokens_def)
  then show ?thesis
    by (simp add: spec_registry_output_tokens)
qed

section \<open>Properties of the enumeration and of the conflict check\<close>

lemma query_loop_keeps_sdks: "query_loop h sdks queries = sdks"
  by (induction queries) (simp_all split: sum.split)

lemma enumeration_empty: "getGlobalSdkVersionsInstalledOnMachine h = []"
  by (simp add: getGlobalSdkVersionsInstalledOnMachine_def query_loop_keeps_sdks)

lemma no_conflict_found:
  "GlobalWindowsInstallWithConflictingVersionAlreadyExists r h requestedVersion = ''''"
  by (simp add: GlobalWindowsInstallWithConflictingVersionAlreadyExists_def enumeration_empty)

text \<open>The loop of the conflict check returns the first version of its list that
  conflicts with the requested one by the rule, and the empty string when none does.\<close>

lemma conflict_loop_first:
  "conflict_loop r a sdks = (case find (conflicts r a) sdks of None \<Rightarrow> '''' | Some b \<Rightarrow> b)"
  by (induction sdks) (simp_all add: conflicts_def)

lemma conflict_loop_example:
  "conflict_loop example_resolver ''7.0.201'' [''7.0.203''] = ''7.0.203''"
  "conflict_loop example_resolver ''7.0.301'' [''7.0.203''] = ''''"
  by (simp_all add: example_resolver_def)

text \<open>
  Claim C2 at a Windows machine whose registry records the SDK 7.0.203 in both hives,
  and at every machine: the function returns the empty array. The array that
  \<^verbatim>\<open>sdks.concat(installedSdks)\<close> builds is dropped, so \<^verbatim>\<open>sdks\<close> is returned as it was
  created.
\<close>

theorem enumeration_returns_no_sdk:
  "getGlobalSdkVersionsInstalledOnMachine windows_host = []
   \<and> (\<forall>h. getGlobalSdkVersionsInstalledOnMachine h = [])"
  by (simp add: enumeration_empty)

text \<open>
  Claim C1 at the same machine and the requested version 7.0.201: by the rule the
  installed 7.0.203 conflicts with it, and the loop of the check finds it in a list
  that holds it, but the check returns the empty string, because the list it loops
  over is the empty one of the enumeration.
\<close>

theorem conflict_check_reports_nothing:
  "conflicts example_resolver ''7.0.201'' ''7.0.203''
   \<and> conflict_loop example_resolver ''7.0.201'' [''7.0.203''] = ''7.0.203''
   \<and> GlobalWindowsInstallWithConflictingVersionAlreadyExists example_resolver windows_host
        ''7.0.201'' = ''''
   \<and> (\<forall>r h requestedVersion.
         GlobalWindowsInstallWithConflictingVersionAlreadyExists r h requestedVersion = '''')"
  by (simp add: no_conflict_found conflicts_def example_resolver_def)

section \<open>Properties of the privilege detection\<close>

lemma isElevated_not_windows:
  "platform h \<noteq> ''win32'' \<Longrightarrow> spawnSync h ''id'' [''-u''] = Inr commandResult \<Longrightarrow>
     isElevated h = Inr (status commandResult = Some 0)"
  by (simp add: isElevated_def)

lemma isElevated_windows:
  "platform h = ''win32'' \<Longrightarrow>
     isElevated h = Inr (\<exists>out. execFileSync h ''net'' [''session''] = Inr out)"
  by (auto simp add: isElevated_def split: sum.split)

text \<open>
  Claim C9 at a Linux machine and a user with the user id 1000: \<^verbatim>\<open>id -u\<close> prints 1000
  and exits with status 0, and the function returns true. It compares the exit status
  of the command with zero, not the user id that the command prints.
\<close>

theorem isElevated_unprivileged_user:
  "platform linux_user_host \<noteq> ''win32''
   \<and> spawnSync linux_user_host ''id'' [''-u'']
       = Inr \<lparr>status = Some 0, stdout = ''1000'' @ [newline]\<rparr>
   \<and> isElevated linux_user_host = Inr True"
  by (simp add: isElevated_def linux_user_host_def)

section \<open>Properties of the expected path\<close>

lemma isPathSeparator_fun: "isPathSeparator = (\<lambda>c. c = CHR ''/'' \<or> c = CHR 0x5C)"
  by (rule ext) (simp add: isPathSeparator_def bslash_def)

lemma isPosixPathSeparator_fun: "isPosixPathSeparator = (\<lambda>c. c = CHR ''/'')"
  by (rule ext) (simp add: isPosixPathSeparator_def)

lemma split_by_segment:
  "list_all (\<lambda>c. \<not> p c) v \<Longrightarrow> p sep \<Longrightarrow> split_by p (v @ sep # rest) = v # split_by p rest"
  by (induction v) (auto split: list.splits)

lemma split_by_last_segment: "list_all (\<lambda>c. \<not> p c) v \<Longrightarrow> split_by p v = [v]"
  by (induction v) (auto split: list.splits)

lemma plain_segment_posix:
  "plain_segment v \<Longrightarrow> list_all (\<lambda>c. \<not> isPosixPathSeparator c) v"
  by (simp add: plain_segment_def list_all_iff isPathSeparator_def isPosixPathSeparator_def)

lemma plain_segment_example: "plain_segment ''7.0.103''"
  by (simp add: plain_segment_def isPathSeparator_def bslash_def)

lemma win32_join_x64:
  assumes "plain_segment v"
  shows "win32_join [''C:'' @ [bslash] @ ''Program Files'' @ [bslash] @ ''dotnet'' @ [bslash]
                       @ ''sdk'' @ [bslash], v, ''dotnet.dll'']
         = ''C:'' @ [bslash] @ ''Program Files'' @ [bslash] @ ''dotnet'' @ [bslash] @ ''sdk''
           @ [bslash] @ v @ [bslash] @ ''dotnet.dll''"
proof -
  have v: "v \<noteq> []" "v \<noteq> ''.''" "v \<noteq> ''..''"
    using assms by (simp_all add: plain_segment_def)
  have chars: "list_all (\<lambda>c. \<not> isPathSeparator c) v"
    using assms by (simp add: plain_segment_def)
  have sep: "isPathSeparator bslash"
    by (simp add: isPathSeparator_def)
  have seg: "split_by isPathSeparator (v @ bslash # ''dotnet.dll'') = [v, ''dotnet.dll'']"
    using split_by_segment [OF chars sep, of "''dotnet.dll''"]
    by (simp add: isPathSeparator_fun bslash_def)
  have segs: "split_by isPathSeparator
                (''Program Files'' @ [bslash] @ ''dotnet'' @ [bslash] @ ''sdk'' @ [bslash]
                 @ [bslash] @ v @ [bslash] @ ''dotnet.dll'')
              = [''Program Files'', ''dotnet'', ''sdk'', '''', v, ''dotnet.dll'']"
    using seg by (simp add: isPathSeparator_fun bslash_def)
  show ?thesis
    using v segs
    by (simp add: win32_join_def win32_normalize_def Let_def isPathSeparator_fun
        isWindowsDeviceRoot_def isPosixPathSeparator_fun bslash_def)
qed

lemma win32_join_x32:
  assumes "plain_segment v"
  shows "win32_join [''C:'' @ [bslash] @ ''Program Files (x86)'' @ [bslash] @ ''dotnet''
                       @ [bslash] @ ''sdk'' @ [bslash], v, ''dotnet.dll'']
         = ''C:'' @ [bslash] @ ''Program Files (x86)'' @ [bslash] @ ''dotnet'' @ [bslash]
           @ ''sdk'' @ [bslash] @ v @ [bslash] @ ''dotnet.dll''"
proof -
  have v: "v \<noteq> []" "v \<noteq> ''.''" "v \<noteq> ''..''"
    using assms by (simp_all add: plain_segment_def)
  have chars: "list_all (\<lambda>c. \<not> isPathSeparator c) v"
    using assms by (simp add: plain_segment_def)
  have sep: "isPathSeparator bslash"
    by (simp add: isPathSeparator_def)
  have seg: "split_by isPathSeparator (v @ bslash # ''dotnet.dll'') = [v, ''dotnet.dll'']"
    using split_by_segment [OF chars sep, of "''dotnet.dll''"]
    by (simp add: isPathSeparator_fun bslash_def)
  have segs: "split_by isPathSeparator
                (''Program Files (x86)'' @ [bslash] @ ''dotnet'' @ [bslash] @ ''sdk''
                 @ [bslash] @ [bslash] @ v @ [bslash] @ ''dotnet.dll'')
              = [''Program Files (x86)'', ''dotnet'', ''sdk'', '''', v, ''dotnet.dll'']"
    using seg by (simp add: isPathSeparator_fun bslash_def)
  show ?thesis
    using v segs
    by (simp add: win32_join_def win32_normalize_def Let_def isPathSeparator_fun
        isWindowsDeviceRoot_def isPosixPathSeparator_fun bslash_def)
qed

lemma posix_join_sdk:
  assumes "plain_segment v"
  shows "posix_join [''/usr/local/share/dotnet/sdk'', v] = ''/usr/local/share/dotnet/sdk/'' @ v"
proof -
  have v: "v \<noteq> []" "v \<noteq> ''.''" "v \<noteq> ''..''"
    using assms by (simp_all add: plain_segment_def)
  have seg: "split_by isPosixPathSeparator v = [v]"
    using plain_segment_posix [OF assms] by (rule split_by_last_segment)
  have segs: "split_by isPosixPathSeparator (''/usr/local/share/dotnet/sdk/'' @ v)
              = ['''', ''usr'', ''local'', ''share'', ''dotnet'', ''sdk'', v]"
    using seg by (simp add: isPosixPathSeparator_fun)
  have "v = butlast v @ [last v]"
    using v by simp
  moreover have "\<not> isPosixPathSeparator (last v)"
    using plain_segment_posix [OF assms] v by (simp add: list_all_iff)
  ultimately have lst: "last v \<noteq> CHR ''/''"
    by (simp add: isPosixPathSeparator_def)
  show ?thesis
    using v segs lst
    by (simp add: posix_join_def posix_normalize_def Let_def)
qed

lemma posix_join_x64_sdk:
  assumes "plain_segment v"
  shows "posix_join [''/usr/local/share/dotnet/x64/dotnet/sdk'', v]
         = ''/usr/local/share/dotnet/x64/dotnet/sdk/'' @ v"
proof -
  have v: "v \<noteq> []" "v \<noteq> ''.''" "v \<noteq> ''..''"
    using assms by (simp_all add: plain_segment_def)
  have seg: "split_by isPosixPathSeparator v = [v]"
    using plain_segment_posix [OF assms] by (rule split_by_last_segment)
  have segs: "split_by isPosixPathSeparator (''/usr/local/share/dotnet/x64/dotnet/sdk/'' @ v)
              = ['''', ''usr'', ''local'', ''share'', ''dotnet'', ''x64'', ''dotnet'', ''sdk'', v]"
    using seg by (simp add: isPosixPathSeparator_fun)
  have "\<not> isPosixPathSeparator (last v)"
    using plain_segment_posix [OF assms] v by (simp add: list_all_iff)
  then have lst: "last v \<noteq> CHR ''/''"
    by (simp add: isPosixPathSeparator_def)
  show ?thesis
    using v segs lst
    by (simp add: posix_join_def posix_normalize_def Let_def)
qed

text \<open>
  Claim C8. The result depends on the host through its platform only. For a version
  that is one segment of a path, the function returns on Windows the file
  \<^verbatim>\<open>dotnet.dll\<close> in the directory of the version under the \<^verbatim>\<open>dotnet\<close> SDK
  directory of \<^verbatim>\<open>Program Files\<close> on drive \<^verbatim>\<open>C:\<close> for \<^verbatim>\<open>x64\<close>, and of
  \<^verbatim>\<open>Program Files (x86)\<close> for \<^verbatim>\<open>x32\<close>; on macOS it returns the directory of
  the version under \<^verbatim>\<open>/usr/local/share/dotnet/x64/dotnet/sdk\<close> for \<^verbatim>\<open>x64\<close> and
  under \<^verbatim>\<open>/usr/local/share/dotnet/sdk\<close> for any other architecture. On every other
  platform it throws the error of an unsupported operating system, whatever the
  version is.
\<close>

theorem expected_global_sdk_path:
  "(platform h' = platform h \<longrightarrow>
      getExpectedGlobalSDKPath h' version arch = getExpectedGlobalSDKPath h version arch)
   \<and> (plain_segment version \<and> platform h = ''win32'' \<longrightarrow>
        getExpectedGlobalSDKPath h version ''x64''
          = Inr (''C:'' @ [bslash] @ ''Program Files'' @ [bslash] @ ''dotnet'' @ [bslash]
                 @ ''sdk'' @ [bslash] @ version @ [bslash] @ ''dotnet.dll'')
        \<and> getExpectedGlobalSDKPath h version ''x32''
          = Inr (''C:'' @ [bslash] @ ''Program Files (x86)'' @ [bslash] @ ''dotnet'' @ [bslash]
                 @ ''sdk'' @ [bslash] @ version @ [bslash] @ ''dotnet.dll''))
   \<and> (plain_segment version \<and> platform h = ''darwin'' \<longrightarrow>
        getExpectedGlobalSDKPath h version ''x64''
          = Inr (''/usr/local/share/dotnet/x64/dotnet/sdk/'' @ version)
        \<and> (arch \<noteq> ''x64'' \<longrightarrow>
             getExpectedGlobalSDKPath h version arch
               = Inr (''/usr/local/share/dotnet/sdk/'' @ version)))
   \<and> (platform h \<noteq> ''win32'' \<and> platform h \<noteq> ''darwin'' \<longrightarrow>
        getExpectedGlobalSDKPath h version arch
          = Inl (Error ''The operating system is unsupported.''))"
proof (intro conjI impI)
  assume "platform h' = platform h"
  then show "getExpectedGlobalSDKPath h' version arch = getExpectedGlobalSDKPath h version arch"
    by (simp add: getExpectedGlobalSDKPath_def path_join_def)
next
  assume "plain_segment version \<and> platform h = ''win32''"
  then show "getExpectedGlobalSDKPath h version ''x64''
          = Inr (''C:'' @ [bslash] @ ''Program Files'' @ [bslash] @ ''dotnet'' @ [bslash]
                 @ ''sdk'' @ [bslash] @ version @ [bslash] @ ''dotnet.dll'')"
    using win32_join_x64 [of version]
    by (simp add: getExpectedGlobalSDKPath_def path_join_def)
next
  assume "plain_segment version \<and> platform h = ''win32''"
  then show "getExpectedGlobalSDKPath h version ''x32''
          = Inr (''C:'' @ [bslash] @ ''Program Files (x86)'' @ [bslash] @ ''dotnet'' @ [bslash]
                 @ ''sdk'' @ [bslash] @ version @ [bslash] @ ''dotnet.dll'')"
    using win32_join_x32 [of version]
    by (simp add: getExpectedGlobalSDKPath_def path_join_def)
next
  assume "plain_segment version \<and> platform h = ''darwin''"
  then show "getExpectedGlobalSDKPath h version ''x64''
          = Inr (''/usr/local/share/dotnet/x64/dotnet/sdk/'' @ version)"
    using posix_join_x64_sdk [of version]
    by (simp add: getExpectedGlobalSDKPath_def path_join_def)
next
  assume "plain_segment version \<and> platform h = ''darwin''" and "arch \<noteq> ''x64''"
  then show "getExpectedGlobalSDKPath h version arch
               = Inr (''/usr/local/share/dotnet/sdk/'' @ version)"
    using posix_join_sdk [of version]
    by (simp add: getExpectedGlobalSDKPath_def path_join_def)
next
  assume "platform h \<noteq> ''win32'' \<and> platform h \<noteq> ''darwin''"
  then show "getExpectedGlobalSDKPath h version arch
          = Inl (Error ''The operating system is unsupported.'')"
    by (simp add: getExpectedGlobalSDKPath_def unsupportedOperatingSystem_def)
qed

theorem expected_global_sdk_path_witness:
  "plain_segment ''7.0.103''
   \<and> platform windows_host = ''win32''
   \<and> getExpectedGlobalSDKPath windows_host ''7.0.103'' ''x64''
       = Inr (''C:'' @ [bslash] @ ''Program Files'' @ [bslash] @ ''dotnet'' @ [bslash] @ ''sdk''
              @ [bslash] @ ''7.0.103'' @ [bslash] @ ''dotnet.dll'')
   \<and> getExpectedGlobalSDKPath windows_host ''7.0.103'' ''x32''
       = Inr (''C:'' @ [bslash] @ ''Program Files (x86)'' @ [bslash] @ ''dotnet'' @ [bslash]
              @ ''sdk'' @ [bslash] @ ''7.0.103'' @ [bslash] @ ''dotnet.dll'')
   \<and> platform mac_host = ''darwin''
   \<and> getExpectedGlobalSDKPath mac_host ''7.0.103'' ''x64''
       = Inr ''/usr/local/share/dotnet/x64/dotnet/sdk/7.0.103''
   \<and> ''arm64'' \<noteq> ''x64''
   \<and> getExpectedGlobalSDKPath mac_host ''7.0.103'' ''arm64''
       = Inr ''/usr/local/share/dotnet/sdk/7.0.103''
   \<and> platform linux_user_host \<noteq> ''win32'' \<and> platform linux_user_host \<noteq> ''darwin''
   \<and> getExpectedGlobalSDKPath linux_user_host ''7.0.103'' ''x64''
       = Inl (Error ''The operating system is unsupported.'')
   \<and> platform (windows_host\<lparr>resolve := example_dirname bslash\<rparr>) = platform windows_host
   \<and> getExpectedGlobalSDKPath (windows_host\<lparr>resolve := example_dirname bslash\<rparr>) ''7.0.103'' ''x64''
       = getExpectedGlobalSDKPath windows_host ''7.0.103'' ''x64''"
proof -
  have v: "plain_segment ''7.0.103''"
    by (rule plain_segment_example)
  have w: "platform windows_host = ''win32''"
    by (simp add: windows_host_def)
  have m: "platform mac_host = ''darwin''"
    by (simp add: mac_host_def linux_serving_host_def)
  have l: "platform linux_user_host \<noteq> ''win32''" "platform linux_user_host \<noteq> ''darwin''"
    by (simp_all add: linux_user_host_def)
  have a: "''arm64'' \<noteq> ''x64''"
    by simp
  have s: "platform (windows_host\<lparr>resolve := example_dirname bslash\<rparr>) = platform windows_host"
    by simp
  show ?thesis
    using expected_global_sdk_path [of "windows_host\<lparr>resolve := example_dirname bslash\<rparr>"
        windows_host "''7.0.103''" "''x64''"]
      expected_global_sdk_path [of mac_host mac_host "''7.0.103''" "''arm64''"]
      expected_global_sdk_path [of linux_user_host linux_user_host "''7.0.103''" "''x64''"]
      v w m l a s
    by simp
qed

text \<open>
  Claim C10. On Windows, with an architecture that is neither \<^verbatim>\<open>x32\<close> nor
  \<^verbatim>\<open>x64\<close>, the function returns no path: it throws the error of an unsupported
  operating system, the one it throws on a platform that is neither Windows nor macOS.
\<close>

theorem windows_other_arch_unsupported:
  assumes "platform h = ''win32''" and "installedArch \<noteq> ''x32''" and "installedArch \<noteq> ''x64''"
  shows "getExpectedGlobalSDKPath h version installedArch
           = Inl (Error ''The operating system is unsupported.'')
         \<and> getExpectedGlobalSDKPath h version installedArch
           = getExpectedGlobalSDKPath (h\<lparr>platform := ''linux''\<rparr>) version installedArch"
  using assms by (simp add: getExpectedGlobalSDKPath_def unsupportedOperatingSystem_def)

theorem windows_other_arch_unsupported_witness:
  "platform windows_host = ''win32'' \<and> ''arm64'' \<noteq> ''x32'' \<and> ''arm64'' \<noteq> ''x64''
   \<and> getExpectedGlobalSDKPath windows_host ''7.0.103'' ''arm64''
       = Inl (Error ''The operating system is unsupported.'')
   \<and> getExpectedGlobalSDKPath windows_host ''7.0.103'' ''arm64''
       = getExpectedGlobalSDKPath (windows_host\<lparr>platform := ''linux''\<rparr>) ''7.0.103'' ''arm64''"
proof -
  have p: "platform windows_host = ''win32''"
    by (simp add: windows_host_def)
  have a: "''arm64'' \<noteq> ''x32''" "''arm64'' \<noteq> ''x64''"
    by simp_all
  from windows_other_arch_unsupported [OF p a, of "''7.0.103''"] p a show ?thesis
    by blast
qed

section \<open>Properties of the download\<close>

lemma settle_Pending [simp]: "settle outcome Pending = outcome"
  by (simp add: settle_def)

lemma settle_Rejected [simp]: "settle outcome (Rejected e) = Rejected e"
  by (simp add: settle_def)

lemma settle_Resolved [simp]: "settle outcome Resolved = Resolved"
  by (simp add: settle_def)


lemma on_http_dirs: "dirs (snd (on_http h dest opened outcome (p, w))) = dirs w"
  by (cases outcome)
     (simp_all add: on_response_def on_request_error_def on_file_error_def unlink_def
        split: option.split prod.split)

lemma on_http_posted: "posted (snd (on_http h dest opened outcome (p, w))) = posted w"
  by (cases outcome)
     (simp_all add: on_response_def on_request_error_def on_file_error_def unlink_def
        split: option.split prod.split)

lemma on_http_Rejected: "fst (on_http h dest opened outcome (Rejected e, w)) = Rejected e"
  by (cases outcome)
     (simp_all add: on_response_def on_request_error_def on_file_error_def unlink_def
        split: option.split prod.split)



lemma download_posted: "posted (snd (download h url dest w)) = posted w"
  by (simp add: download_def Let_def mkdirSync_def open_wx_def on_file_error_def on_http_posted
      unlink_def split: sum.split)

lemma download_Resolved_dir:
  assumes "fst (download h url dest w) = Resolved"
  shows "dirname h dest \<in> set (dirs (snd (download h url dest w)))"
  using assms
  by (simp add: download_def Let_def mkdirSync_def open_wx_def on_file_error_def on_http_dirs
      on_http_Rejected unlink_def split: sum.split if_splits)

lemma example_dest_dirname: "example_dirname CHR ''/'' example_dest = ''/tmp/installers''"
  by (simp add: example_dirname_def example_dest_def)

text \<open>
  Claim C6. When nothing exists at the destination before the download, and the
  request ends in an error or in a response whose status is not 200, the promise of
  the download is rejected and no file is at the destination afterwards.
\<close>

theorem failed_download_leaves_no_file:
  assumes "\<not> existsSync w dest"
      and "(\<exists>msg. httpsGet h url = RequestError msg)
           \<or> (\<exists>statusCode statusMessage body.
                 httpsGet h url = Response statusCode statusMessage body \<and> statusCode \<noteq> 200)"
  shows "(\<exists>e. fst (download h url dest w) = Rejected e)
         \<and> files (snd (download h url dest w)) dest = None"
proof -
  from assms(1) have nofile: "files w dest = None"
    by (simp add: existsSync_def)
  from assms(2) show ?thesis
  proof
    assume "\<exists>msg. httpsGet h url = RequestError msg"
    then obtain msg where "httpsGet h url = RequestError msg" ..
    with nofile show ?thesis
      by (simp add: download_def Let_def mkdirSync_def open_wx_def on_file_error_def
          on_request_error_def unlink_def existsSync_def)
  next
    assume "\<exists>statusCode statusMessage body.
              httpsGet h url = Response statusCode statusMessage body \<and> statusCode \<noteq> 200"
    then obtain statusCode statusMessage body
      where "httpsGet h url = Response statusCode statusMessage body" "statusCode \<noteq> 200"
      by blast
    with nofile show ?thesis
      by (simp add: download_def Let_def mkdirSync_def open_wx_def on_file_error_def
          on_response_def unlink_def existsSync_def)
  qed
qed

theorem failed_download_leaves_no_file_witness:
  "\<not> existsSync example_world example_dest
   \<and> httpsGet linux_user_host example_url = Response 404 ''Not Found'' '''' \<and> (404::nat) \<noteq> 200
   \<and> (\<exists>e. fst (download linux_user_host example_url example_dest example_world) = Rejected e)
   \<and> files (snd (download linux_user_host example_url example_dest example_world)) example_dest
       = None"
proof -
  have a: "\<not> existsSync example_world example_dest"
    by (simp add: existsSync_def example_world_def example_dest_def)
  have b: "httpsGet linux_user_host example_url = Response 404 ''Not Found'' ''''"
    by (simp add: linux_user_host_def)
  have c: "(\<exists>msg. httpsGet linux_user_host example_url = RequestError msg)
           \<or> (\<exists>statusCode statusMessage body.
                 httpsGet linux_user_host example_url = Response statusCode statusMessage body
                 \<and> statusCode \<noteq> 200)"
    using b by simp
  from failed_download_leaves_no_file [OF a c] a b show ?thesis
    by simp
qed

text \<open>Whatever the message of the failed open is: when the request fails too, its
  handler removes the file that was at the destination.\<close>

lemma existing_file_removed_by_failed_request:
  assumes "files w dest = Some contents" and "dirname h dest \<in> set (dirs w)"
      and "\<forall>statusMessage body. httpsGet h url \<noteq> Response 200 statusMessage body"
  shows "files (snd (download h url dest w)) dest = None"
proof (cases "httpsGet h url")
  case (Response statusCode statusMessage body)
  with assms(3) have "statusCode \<noteq> 200"
    by auto
  with Response assms(1,2) show ?thesis
    by (simp add: download_def Let_def open_wx_def on_file_error_def on_response_def unlink_def
        existsSync_def)
next
  case (RequestError msg)
  with assms(1,2) show ?thesis
    by (simp add: download_def Let_def open_wx_def on_file_error_def on_request_error_def
        unlink_def existsSync_def)
qed

text \<open>
  Claim C7 at a destination that holds a file with the contents \<open>old\<close>. The download
  is rejected, and the file is gone afterwards: with a server that answers 200,
  because the message of the failed open is not \<^verbatim>\<open>EEXIST\<close> but a sentence that begins
  with it, so that the handler of the stream takes the branch that unlinks; with a
  server that answers 404, because the handler of the response unlinks too.
\<close>

theorem download_onto_existing_file_removes_it:
  "files world_with_file example_dest = Some ''old''
   \<and> httpsGet linux_serving_host example_url = Response 200 ''OK'' ''installer''
   \<and> fst (download linux_serving_host example_url example_dest world_with_file)
       = Rejected (Reason (''EEXIST: file already exists, open '' @ [squote] @ example_dest
                            @ [squote]))
   \<and> files (snd (download linux_serving_host example_url example_dest world_with_file))
        example_dest = None
   \<and> httpsGet linux_user_host example_url = Response 404 ''Not Found'' ''''
   \<and> fst (download linux_user_host example_url example_dest world_with_file)
       = Rejected (Reason (''EEXIST: file already exists, open '' @ [squote] @ example_dest
                            @ [squote]))
   \<and> files (snd (download linux_user_host example_url example_dest world_with_file))
        example_dest = None"
proof -
  have ok: "download linux_serving_host example_url example_dest world_with_file
     = (Rejected (Reason (node_errorMessage ''EEXIST'' ''open'' example_dest)),
        world_with_file\<lparr>files := Map.empty, trace := [Download example_url example_dest]\<rparr>)"
    by (simp add: download_def Let_def existsSync_def world_with_file_def example_world_def
        linux_serving_host_def linux_user_host_def example_dest_dirname open_wx_def
        on_file_error_def on_response_def unlink_def)
       (simp add: example_dest_def node_errorMessage_def)
  have missing: "download linux_user_host example_url example_dest world_with_file
     = (Rejected (Reason (node_errorMessage ''EEXIST'' ''open'' example_dest)),
        world_with_file\<lparr>files := Map.empty, trace := [Download example_url example_dest]\<rparr>)"
    by (simp add: download_def Let_def existsSync_def world_with_file_def example_world_def
        linux_user_host_def example_dest_dirname open_wx_def on_file_error_def on_response_def
        unlink_def)
       (simp add: example_dest_def node_errorMessage_def)
  have msg: "node_errorMessage ''EEXIST'' ''open'' example_dest
     = ''EEXIST: file already exists, open '' @ [squote] @ example_dest @ [squote]"
    by (simp add: node_errorMessage_def errno_description_def)
  show ?thesis
    by (simp add: ok missing msg)
       (simp add: world_with_file_def example_dest_def linux_serving_host_def linux_user_host_def)
qed

section \<open>Properties of the installer\<close>










lemma executeInstall_dirs: "dirs (snd (executeInstall h path w)) = dirs w"
  by (simp add: executeInstall_def Let_def split: sum.split)

text \<open>The branch of the conflict is never taken: every run goes on to the download.\<close>

lemma installSDK_proceeds: "installSDK r h inst w = download_and_install h inst w"
  by (simp add: installSDK_def no_conflict_found)


lemma windows_installerPath:
  "installerPath_of windows_host example_url
   = ''C:'' @ [bslash] @ ''installers'' @ [bslash] @ ''dotnet-sdk.pkg''"
  by (simp add: installerPath_of_def path_join_def windows_host_def example_url_def
      win32_join_def win32_normalize_def Let_def isPathSeparator_fun isPosixPathSeparator_fun
      isWindowsDeviceRoot_def bslash_def)

lemma run_on_windows:
  "fst (installSDK example_resolver windows_host example_installer example_world)
     = Some (Inr (Output ''[object Object]''))"
  "posted (snd (installSDK example_resolver windows_host example_installer example_world)) = []"
  "trace (snd (installSDK example_resolver windows_host example_installer example_world))
     = [WipeDirectory (''C:'' @ [bslash] @ ''installers''),
        Download example_url (''C:'' @ [bslash] @ ''installers'' @ [bslash] @ ''dotnet-sdk.pkg''),
        RunInstaller (''C:'' @ [bslash] @ ''installers'' @ [bslash] @ ''dotnet-sdk.pkg'') [],
        WipeDirectory (''C:'' @ [bslash] @ ''installers'')]"
proof -
  have url: "installerUrl example_installer = example_url"
    by (simp add: example_installer_def example_url_def)
  note defs = Let_def windows_host_def registryQueryCommand_def example_url_def
    example_dirname_def download_def wipeDirectory_def existsSync_def open_wx_def
    on_response_def executeInstall_def isElevated_def object_toString_def example_world_def
    bslash_def
  show "fst (installSDK example_resolver windows_host example_installer example_world)
     = Some (Inr (Output ''[object Object]''))"
    unfolding installSDK_proceeds download_and_install_def downloadInstaller_def url
      windows_installerPath
    by (simp add: defs)
  show "posted (snd (installSDK example_resolver windows_host example_installer example_world))
     = []"
    unfolding installSDK_proceeds download_and_install_def downloadInstaller_def url
      windows_installerPath
    by (simp add: defs)
  show "trace (snd (installSDK example_resolver windows_host example_installer example_world))
     = [WipeDirectory (''C:'' @ [bslash] @ ''installers''),
        Download example_url (''C:'' @ [bslash] @ ''installers'' @ [bslash] @ ''dotnet-sdk.pkg''),
        RunInstaller (''C:'' @ [bslash] @ ''installers'' @ [bslash] @ ''dotnet-sdk.pkg'') [],
        WipeDirectory (''C:'' @ [bslash] @ ''installers'')]"
    unfolding installSDK_proceeds download_and_install_def downloadInstaller_def url
      windows_installerPath
    by (simp add: defs)
qed

text \<open>
  Claim C4 at the Windows machine whose registry records the SDK 7.0.203, with the
  requested version 7.0.201, which conflicts with it by the rule. The run throws
  nothing and posts no event: it calls the wipe of the scratch directory, downloads
  the installer, runs it and calls the wipe again, because the conflict check returns
  the empty string.
\<close>

theorem installSDK_misses_conflict:
  "platform windows_host = ''win32''
   \<and> installingVersion example_installer = ''7.0.201''
   \<and> conflicts example_resolver ''7.0.201'' ''7.0.203''
   \<and> fst (installSDK example_resolver windows_host example_installer example_world)
       = Some (Inr (Output ''[object Object]''))
   \<and> posted (snd (installSDK example_resolver windows_host example_installer example_world)) = []
   \<and> trace (snd (installSDK example_resolver windows_host example_installer example_world))
       = [WipeDirectory (''C:'' @ [bslash] @ ''installers''),
          Download example_url
            (''C:'' @ [bslash] @ ''installers'' @ [bslash] @ ''dotnet-sdk.pkg''),
          RunInstaller (''C:'' @ [bslash] @ ''installers'' @ [bslash] @ ''dotnet-sdk.pkg'') [],
          WipeDirectory (''C:'' @ [bslash] @ ''installers'')]"
  by (simp add: run_on_windows)
     (simp add: windows_host_def example_installer_def conflicts_def example_resolver_def)







end
